theory Spec2Isabelle
  imports Main
begin

section \<open>Python values and list operations used by day2/main.py\<close>

text \<open>
  The exceptions the program can meet: a list index out of range, a call with the wrong
  number of arguments, and the \<^verbatim>\<open>ValueError\<close> raised by the parameter search.
\<close>

datatype error = IndexError | TypeError | ValueError

text \<open>\<^verbatim>\<open>Program = list[int]\<close>: Python integers are unbounded.\<close>

type_synonym Program = "int list"

text \<open>
  The position a Python list index denotes: an index from \<open>0\<close> to \<open>len - 1\<close> is the
  position itself, an index from \<open>-len\<close> to \<open>-1\<close> counts from the end, and any other
  index denotes no position.
\<close>

definition list_position :: "'a list \<Rightarrow> int \<Rightarrow> nat option" where
  "list_position xs i =
     (if 0 \<le> i then (if i < int (length xs) then Some (nat i) else None)
      else (if - int (length xs) \<le> i then Some (nat (int (length xs) + i)) else None))"

text \<open>\<^verbatim>\<open>xs[i]\<close> and \<^verbatim>\<open>xs[i] = v\<close>, which raise \<^verbatim>\<open>IndexError\<close> on an index without position.\<close>

definition getitem :: "'a list \<Rightarrow> int \<Rightarrow> error + 'a" where
  "getitem xs i = (case list_position xs i of None \<Rightarrow> Inl IndexError | Some k \<Rightarrow> Inr (xs ! k))"

definition setitem :: "'a list \<Rightarrow> int \<Rightarrow> 'a \<Rightarrow> error + 'a list" where
  "setitem xs i v =
     (case list_position xs i of None \<Rightarrow> Inl IndexError | Some k \<Rightarrow> Inr (xs[k := v]))"

text \<open>\<^verbatim>\<open>d.get(k, default)\<close> on a dictionary.\<close>

definition dict_get :: "('k \<rightharpoonup> 'v) \<Rightarrow> 'k \<Rightarrow> 'v \<Rightarrow> 'v" where
  "dict_get d k dflt = (case d k of None \<Rightarrow> dflt | Some v \<Rightarrow> v)"

text \<open>\<^verbatim>\<open>range(n)\<close>, as the list of the integers it yields in order.\<close>

definition range_list :: "nat \<Rightarrow> int list" where
  "range_list n = map int [0..<n]"


section \<open>Lists as objects: a store for the functions that copy and mutate\<close>

text \<open>
  A Python list is a mutable object. The store maps each reference allocated so far
  (the references below \<open>lim\<close>) to the list it holds. \<^verbatim>\<open>xs.copy()\<close> allocates a new
  reference holding the same elements; an item assignment changes the list held by one
  reference and no other.
\<close>

record heap =
  objs :: "nat \<Rightarrow> Program"
  lim :: nat

definition list_copy :: "heap \<Rightarrow> nat \<Rightarrow> heap \<times> nat" where
  "list_copy h r = (h\<lparr>objs := (objs h)(lim h := objs h r), lim := Suc (lim h)\<rparr>, lim h)"

definition list_getitem :: "heap \<Rightarrow> nat \<Rightarrow> int \<Rightarrow> error + int" where
  "list_getitem h r i = getitem (objs h r) i"

definition list_setitem :: "heap \<Rightarrow> nat \<Rightarrow> int \<Rightarrow> int \<Rightarrow> error + heap" where
  "list_setitem h r i v =
     (case setitem (objs h r) i v of
        Inl e \<Rightarrow> Inl e
      | Inr xs \<Rightarrow> Inr (h\<lparr>objs := (objs h)(r := xs)\<rparr>))"


section \<open>The operations\<close>

text \<open>\<^verbatim>\<open>class Parameters(NamedTuple)\<close>.\<close>

record Parameters =
  noun :: int
  verb :: int

text \<open>
  \<^verbatim>\<open>execute_add_operation\<close> on the store: three parameter words are read from the
  program, two values are read at the first two, the program is copied and the copy is
  assigned at the third. The result is the reference of the copy.
\<close>

definition execute_add_operation_heap :: "heap \<Rightarrow> nat \<Rightarrow> int \<Rightarrow> heap \<times> (error + nat)" where
  "execute_add_operation_heap h program instruction_pointer =
     (case list_getitem h program (instruction_pointer + 1) of Inl e \<Rightarrow> (h, Inl e)
      | Inr read_address_1 \<Rightarrow>
     (case list_getitem h program (instruction_pointer + 2) of Inl e \<Rightarrow> (h, Inl e)
      | Inr read_address_2 \<Rightarrow>
     (case list_getitem h program (instruction_pointer + 3) of Inl e \<Rightarrow> (h, Inl e)
      | Inr write_address \<Rightarrow>
     (case list_getitem h program read_address_1 of Inl e \<Rightarrow> (h, Inl e)
      | Inr value_1 \<Rightarrow>
     (case list_getitem h program read_address_2 of Inl e \<Rightarrow> (h, Inl e)
      | Inr value_2 \<Rightarrow>
     (let result = value_1 + value_2;
          (h1, updated_program) = list_copy h program
      in case list_setitem h1 updated_program write_address result of
           Inl e \<Rightarrow> (h1, Inl e)
         | Inr h2 \<Rightarrow> (h2, Inr updated_program)))))))"

definition execute_multiply_operation_heap ::
  "heap \<Rightarrow> nat \<Rightarrow> int \<Rightarrow> heap \<times> (error + nat)" where
  "execute_multiply_operation_heap h program instruction_pointer =
     (case list_getitem h program (instruction_pointer + 1) of Inl e \<Rightarrow> (h, Inl e)
      | Inr read_address_1 \<Rightarrow>
     (case list_getitem h program (instruction_pointer + 2) of Inl e \<Rightarrow> (h, Inl e)
      | Inr read_address_2 \<Rightarrow>
     (case list_getitem h program (instruction_pointer + 3) of Inl e \<Rightarrow> (h, Inl e)
      | Inr write_address \<Rightarrow>
     (case list_getitem h program read_address_1 of Inl e \<Rightarrow> (h, Inl e)
      | Inr value_1 \<Rightarrow>
     (case list_getitem h program read_address_2 of Inl e \<Rightarrow> (h, Inl e)
      | Inr value_2 \<Rightarrow>
     (let result = value_1 * value_2;
          (h1, updated_program) = list_copy h program
      in case list_setitem h1 updated_program write_address result of
           Inl e \<Rightarrow> (h1, Inl e)
         | Inr h2 \<Rightarrow> (h2, Inr updated_program)))))))"

text \<open>\<^verbatim>\<open>set_program_parameters\<close> on the store.\<close>

definition set_program_parameters_heap ::
  "heap \<Rightarrow> nat \<Rightarrow> int \<Rightarrow> int \<Rightarrow> heap \<times> (error + nat)" where
  "set_program_parameters_heap h program noun_value verb_value =
     (let (h1, configured_program) = list_copy h program
      in case list_setitem h1 configured_program 1 noun_value of
           Inl e \<Rightarrow> (h1, Inl e)
         | Inr h2 \<Rightarrow>
          (case list_setitem h2 configured_program 2 verb_value of
             Inl e \<Rightarrow> (h2, Inl e)
           | Inr h3 \<Rightarrow> (h3, Inr configured_program)))"

text \<open>
  The same three functions on values. Each of them returns a list that it has copied
  itself and assigns only to that copy, so a caller that holds lists by value sees a
  function from the argument list to the result list; the lemmas \<open>*_heap_value\<close> below
  prove that these are the values the store functions compute.
\<close>

definition execute_add_operation :: "Program \<Rightarrow> int \<Rightarrow> error + Program" where
  "execute_add_operation program instruction_pointer =
     (case getitem program (instruction_pointer + 1) of Inl e \<Rightarrow> Inl e
      | Inr read_address_1 \<Rightarrow>
     (case getitem program (instruction_pointer + 2) of Inl e \<Rightarrow> Inl e
      | Inr read_address_2 \<Rightarrow>
     (case getitem program (instruction_pointer + 3) of Inl e \<Rightarrow> Inl e
      | Inr write_address \<Rightarrow>
     (case getitem program read_address_1 of Inl e \<Rightarrow> Inl e
      | Inr value_1 \<Rightarrow>
     (case getitem program read_address_2 of Inl e \<Rightarrow> Inl e
      | Inr value_2 \<Rightarrow>
     (let result = value_1 + value_2;
          updated_program = program
      in setitem updated_program write_address result))))))"

definition execute_multiply_operation :: "Program \<Rightarrow> int \<Rightarrow> error + Program" where
  "execute_multiply_operation program instruction_pointer =
     (case getitem program (instruction_pointer + 1) of Inl e \<Rightarrow> Inl e
      | Inr read_address_1 \<Rightarrow>
     (case getitem program (instruction_pointer + 2) of Inl e \<Rightarrow> Inl e
      | Inr read_address_2 \<Rightarrow>
     (case getitem program (instruction_pointer + 3) of Inl e \<Rightarrow> Inl e
      | Inr write_address \<Rightarrow>
     (case getitem program read_address_1 of Inl e \<Rightarrow> Inl e
      | Inr value_1 \<Rightarrow>
     (case getitem program read_address_2 of Inl e \<Rightarrow> Inl e
      | Inr value_2 \<Rightarrow>
     (let result = value_1 * value_2;
          updated_program = program
      in setitem updated_program write_address result))))))"

definition set_program_parameters :: "Program \<Rightarrow> int \<Rightarrow> int \<Rightarrow> error + Program" where
  "set_program_parameters program noun_value verb_value =
     (let configured_program = program
      in case setitem configured_program 1 noun_value of
           Inl e \<Rightarrow> Inl e
         | Inr configured_program1 \<Rightarrow> setitem configured_program1 2 verb_value)"


section \<open>The operation registry\<close>

text \<open>
  The function objects stored in the \<^verbatim>\<open>execute\<close> field. Python compares functions by
  identity, so each is a constructor, and \<open>call\<close> applies it to a program and an
  instruction pointer. The halt operation stores the builtin \<^verbatim>\<open>id\<close>, which takes
  exactly one argument: called with two it raises \<^verbatim>\<open>TypeError\<close>.
\<close>

datatype callable = Fn_execute_add_operation | Fn_execute_multiply_operation | Builtin_id

fun call :: "callable \<Rightarrow> Program \<Rightarrow> int \<Rightarrow> error + Program" where
  "call Fn_execute_add_operation program instruction_pointer =
     execute_add_operation program instruction_pointer"
| "call Fn_execute_multiply_operation program instruction_pointer =
     execute_multiply_operation program instruction_pointer"
| "call Builtin_id program instruction_pointer = Inl TypeError"

text \<open>\<^verbatim>\<open>class Operation(NamedTuple)\<close>; the field \<^verbatim>\<open>size\<close> is \<open>size_op\<close> here.\<close>

record Operation =
  opcode :: int
  size_op :: int
  execute :: callable

definition ADD_OPERATION :: Operation where
  "ADD_OPERATION = \<lparr>opcode = 1, size_op = 4, execute = Fn_execute_add_operation\<rparr>"

definition MULTIPLY_OPERATION :: Operation where
  "MULTIPLY_OPERATION = \<lparr>opcode = 2, size_op = 4, execute = Fn_execute_multiply_operation\<rparr>"

definition HALT_OPERATION :: Operation where
  "HALT_OPERATION = \<lparr>opcode = 99, size_op = 1, execute = Builtin_id\<rparr>"

definition OPERATIONS :: "int \<rightharpoonup> Operation" where
  "OPERATIONS =
     [opcode ADD_OPERATION \<mapsto> ADD_OPERATION,
      opcode MULTIPLY_OPERATION \<mapsto> MULTIPLY_OPERATION,
      opcode HALT_OPERATION \<mapsto> HALT_OPERATION]"


section \<open>The interpreter\<close>

text \<open>
  One pass through the body of the \<^verbatim>\<open>while True\<close> loop of \<^verbatim>\<open>simulate_program\<close>:
  an exception, \<open>None\<close> for \<^verbatim>\<open>break\<close>, or the program and pointer of the next pass.
\<close>

definition loop_body :: "Program \<Rightarrow> int \<Rightarrow> error + (Program \<times> int) option" where
  "loop_body program pointer =
     (case getitem program pointer of
        Inl e \<Rightarrow> Inl e
      | Inr code \<Rightarrow>
         (let operation = dict_get OPERATIONS code HALT_OPERATION
          in if operation = HALT_OPERATION then Inr None
             else (case call (execute operation) program pointer of
                     Inl e \<Rightarrow> Inl e
                   | Inr program1 \<Rightarrow> Inr (Some (program1, pointer + size_op operation)))))"

text \<open>
  The \<^verbatim>\<open>while True\<close> loop of \<^verbatim>\<open>simulate_program\<close>, from the program and pointer
  that a pass starts with. It terminates: a pass that continues has read its opcode
  inside the program, returns a program of the same length and moves the pointer forward
  by four words, so the distance from the pointer to the end of the program decreases.
\<close>

function simulate_loop :: "Program \<Rightarrow> int \<Rightarrow> error + Program" where
  "simulate_loop program pointer =
     (case loop_body program pointer of
        Inl e \<Rightarrow> Inl e
      | Inr None \<Rightarrow> Inr program
      | Inr (Some (program1, pointer1)) \<Rightarrow> simulate_loop program1 pointer1)"
  by pat_completeness auto
termination
proof (relation "measure (\<lambda>(program, pointer). nat (int (length program) - pointer))")
  show "wf (measure (\<lambda>(program, pointer). nat (int (length program) - pointer)))"
    by simp
next
  fix program :: Program and pointer :: int and b x2 program1 pointer1
  assume "loop_body program pointer = Inr b" "b = Some x2" "(program1, pointer1) = x2"
  then have body: "loop_body program pointer = Inr (Some (program1, pointer1))"
    by simp
  then obtain code where code: "getitem program pointer = Inr code"
    by (auto simp: loop_body_def split: sum.splits)
  let ?operation = "dict_get OPERATIONS code HALT_OPERATION"
  from body code have running: "?operation \<noteq> HALT_OPERATION"
    and executed: "call (execute ?operation) program pointer = Inr program1"
    and moved: "pointer1 = pointer + size_op ?operation"
    by (auto simp: loop_body_def Let_def split: if_splits sum.splits)
  from code have inside: "pointer < int (length program)"
    by (auto simp: getitem_def list_position_def split: option.splits if_splits)
  have "?operation = ADD_OPERATION \<or> ?operation = MULTIPLY_OPERATION
      \<or> ?operation = HALT_OPERATION"
    by (simp add: dict_get_def OPERATIONS_def ADD_OPERATION_def MULTIPLY_OPERATION_def
        HALT_OPERATION_def)
  with running executed
  have "size_op ?operation = 4
      \<and> (execute_add_operation program pointer = Inr program1
         \<or> execute_multiply_operation program pointer = Inr program1)"
    by (auto simp: ADD_OPERATION_def MULTIPLY_OPERATION_def)
  then have "size_op ?operation = 4 \<and> length program1 = length program"
    by (auto simp: execute_add_operation_def execute_multiply_operation_def setitem_def
        split: sum.splits option.splits)
  with moved inside
  show "((program1, pointer1), (program, pointer))
        \<in> measure (\<lambda>(program, pointer). nat (int (length program) - pointer))"
    by simp
qed

declare simulate_loop.simps [simp del]

definition simulate_program :: "Program \<Rightarrow> error + Program" where
  "simulate_program program = simulate_loop program 0"

text \<open>
  The same loop with a bound on the number of passes: \<open>None\<close> when the bound is
  reached before the loop has left. It counts the passes of \<open>simulate_loop\<close>.
\<close>

fun simulate_passes :: "nat \<Rightarrow> Program \<Rightarrow> int \<Rightarrow> (error + Program) option" where
  "simulate_passes 0 program pointer = None"
| "simulate_passes (Suc n) program pointer =
     (case loop_body program pointer of
        Inl e \<Rightarrow> Some (Inl e)
      | Inr None \<Rightarrow> Some (Inr program)
      | Inr (Some (program1, pointer1)) \<Rightarrow> simulate_passes n program1 pointer1)"

definition read_output :: "Program \<Rightarrow> error + int" where
  "read_output program = getitem program 0"


section \<open>The parameter search\<close>

definition TARGET_PARAMETER_RANGE :: "int list" where
  "TARGET_PARAMETER_RANGE = range_list 100"

definition parameters_yield_target_output :: "Program \<Rightarrow> Parameters \<Rightarrow> int \<Rightarrow> error + bool" where
  "parameters_yield_target_output program parameters target_output =
     (case set_program_parameters program (noun parameters) (verb parameters) of
        Inl e \<Rightarrow> Inl e
      | Inr configured_program \<Rightarrow>
         (case simulate_program configured_program of
            Inl e \<Rightarrow> Inl e
          | Inr final_state \<Rightarrow>
             (case read_output final_state of
                Inl e \<Rightarrow> Inl e
              | Inr output \<Rightarrow> Inr (output = target_output))))"

text \<open>
  The inner \<^verbatim>\<open>for verb\<close> loop over the verbs still to try: an exception, the
  parameters that the function returns, or \<open>None\<close> when the loop ends without a return.
\<close>

fun for_verb :: "Program \<Rightarrow> int \<Rightarrow> int \<Rightarrow> int list \<Rightarrow> error + Parameters option" where
  "for_verb program target_output noun_value [] = Inr None"
| "for_verb program target_output noun_value (verb_value # verbs) =
     (let parameters = \<lparr>noun = noun_value, verb = verb_value\<rparr>
      in case parameters_yield_target_output program parameters target_output of
           Inl e \<Rightarrow> Inl e
         | Inr found \<Rightarrow>
            (if found then Inr (Some parameters)
             else for_verb program target_output noun_value verbs))"

text \<open>
  The outer \<^verbatim>\<open>for noun\<close> loop over the nouns still to try; after the last noun the
  function raises \<^verbatim>\<open>ValueError\<close>.
\<close>

fun for_noun :: "Program \<Rightarrow> int \<Rightarrow> int list \<Rightarrow> error + Parameters" where
  "for_noun program target_output [] = Inl ValueError"
| "for_noun program target_output (noun_value # nouns) =
     (case for_verb program target_output noun_value TARGET_PARAMETER_RANGE of
        Inl e \<Rightarrow> Inl e
      | Inr (Some parameters) \<Rightarrow> Inr parameters
      | Inr None \<Rightarrow> for_noun program target_output nouns)"

definition find_parameters_for_output :: "Program \<Rightarrow> int \<Rightarrow> error + Parameters" where
  "find_parameters_for_output program target_output =
     for_noun program target_output TARGET_PARAMETER_RANGE"

section \<open>Facts about the list operations and one pass of the loop\<close>

lemma list_position_Some: "list_position xs i = Some k \<Longrightarrow> i < int (length xs) \<and> k < length xs"
  by (auto simp: list_position_def split: if_splits)

lemma getitem_Inr_less: "getitem xs i = Inr v \<Longrightarrow> i < int (length xs)"
  by (auto simp: getitem_def split: option.splits dest: list_position_Some)

lemma setitem_length: "setitem xs i v = Inr ys \<Longrightarrow> length ys = length xs"
  by (auto simp: setitem_def split: option.splits)

lemma execute_add_operation_length:
  "execute_add_operation program ip = Inr program1 \<Longrightarrow> length program1 = length program"
  by (auto simp: execute_add_operation_def split: sum.splits dest: setitem_length)

lemma execute_multiply_operation_length:
  "execute_multiply_operation program ip = Inr program1 \<Longrightarrow> length program1 = length program"
  by (auto simp: execute_multiply_operation_def split: sum.splits dest: setitem_length)

lemma call_length: "call f program ip = Inr program1 \<Longrightarrow> length program1 = length program"
  by (cases f) (auto dest: execute_add_operation_length execute_multiply_operation_length)

lemma OPERATIONS_cases:
  "dict_get OPERATIONS code HALT_OPERATION = ADD_OPERATION \<and> code = 1
   \<or> dict_get OPERATIONS code HALT_OPERATION = MULTIPLY_OPERATION \<and> code = 2
   \<or> dict_get OPERATIONS code HALT_OPERATION = HALT_OPERATION"
  by (simp add: dict_get_def OPERATIONS_def ADD_OPERATION_def MULTIPLY_OPERATION_def
      HALT_OPERATION_def)

lemma loop_body_continues:
  assumes "loop_body program pointer = Inr (Some (program1, pointer1))"
  shows "pointer < int (length program) \<and> length program1 = length program
         \<and> pointer1 = pointer + 4"
proof -
  from assms obtain code where code: "getitem program pointer = Inr code"
    by (auto simp: loop_body_def split: sum.splits)
  let ?op = "dict_get OPERATIONS code HALT_OPERATION"
  from assms code have running: "?op \<noteq> HALT_OPERATION"
    and exec: "call (execute ?op) program pointer = Inr program1"
    and next_pointer: "pointer1 = pointer + size_op ?op"
    by (auto simp: loop_body_def Let_def split: if_splits sum.splits)
  from running OPERATIONS_cases [of code] have "size_op ?op = 4"
    by (auto simp: ADD_OPERATION_def MULTIPLY_OPERATION_def)
  with next_pointer getitem_Inr_less [OF code] call_length [OF exec] show ?thesis
    by simp
qed

lemma getitem_nat: "k < length xs \<Longrightarrow> getitem xs (int k) = Inr (xs ! k)"
  by (simp add: getitem_def list_position_def)

lemma getitem_within: "0 \<le> i \<Longrightarrow> i < int (length xs) \<Longrightarrow> getitem xs i = Inr (xs ! nat i)"
  by (simp add: getitem_def list_position_def)

lemma setitem_within:
  "0 \<le> i \<Longrightarrow> i < int (length xs) \<Longrightarrow> setitem xs i v = Inr (xs[nat i := v])"
  by (simp add: setitem_def list_position_def)

lemma getitem_from_end:
  "i < 0 \<Longrightarrow> - int (length xs) \<le> i \<Longrightarrow> getitem xs i = Inr (xs ! nat (int (length xs) + i))"
  by (simp add: getitem_def list_position_def)

lemma setitem_from_end:
  "i < 0 \<Longrightarrow> - int (length xs) \<le> i
   \<Longrightarrow> setitem xs i v = Inr (xs[nat (int (length xs) + i) := v])"
  by (simp add: setitem_def list_position_def)

lemma getitem_outside:
  "int (length xs) \<le> i \<or> i < - int (length xs) \<Longrightarrow> getitem xs i = Inl IndexError"
  by (auto simp: getitem_def list_position_def)

lemma setitem_outside:
  "int (length xs) \<le> i \<or> i < - int (length xs) \<Longrightarrow> setitem xs i v = Inl IndexError"
  by (auto simp: setitem_def list_position_def)

lemma getitem_error: "getitem xs i = Inl e \<Longrightarrow> e = IndexError"
  by (auto simp: getitem_def split: option.splits)

lemma setitem_error: "setitem xs i v = Inl e \<Longrightarrow> e = IndexError"
  by (auto simp: setitem_def split: option.splits)

lemma execute_add_operation_error: "execute_add_operation program ip = Inl e \<Longrightarrow> e = IndexError"
  by (auto simp: execute_add_operation_def split: sum.splits dest: getitem_error setitem_error)

lemma execute_multiply_operation_error:
  "execute_multiply_operation program ip = Inl e \<Longrightarrow> e = IndexError"
  by (auto simp: execute_multiply_operation_def split: sum.splits
      dest: getitem_error setitem_error)

lemma execute_add_operation_within:
  fixes program :: Program and ip :: nat
  assumes "ip + 3 < length program"
    and "0 \<le> program ! (ip + 1)" "program ! (ip + 1) < int (length program)"
    and "0 \<le> program ! (ip + 2)" "program ! (ip + 2) < int (length program)"
    and "0 \<le> program ! (ip + 3)" "program ! (ip + 3) < int (length program)"
  shows "execute_add_operation program (int ip) =
         Inr (program[nat (program ! (ip + 3)) :=
                program ! nat (program ! (ip + 1)) + program ! nat (program ! (ip + 2))])"
proof -
  have words: "getitem program (int ip + 1) = Inr (program ! (ip + 1))"
    "getitem program (int ip + 2) = Inr (program ! (ip + 2))"
    "getitem program (int ip + 3) = Inr (program ! (ip + 3))"
    using assms(1) getitem_nat [of "ip + 1" program] getitem_nat [of "ip + 2" program]
      getitem_nat [of "ip + 3" program]
    by (simp_all add: add.commute)
  show ?thesis
    using assms(2-) by (simp add: execute_add_operation_def words getitem_within setitem_within)
qed

section \<open>The add operation\<close>

text \<open>
  Claim C2. For every memory image and instruction pointer \<open>ip\<close> such that \<open>ip + 3\<close> and
  the three addresses \<open>Memory[ip+1]\<close>, \<open>Memory[ip+2]\<close>, \<open>Memory[ip+3]\<close> are within
  bounds, executing the add operation returns a memory whose cell at address
  \<open>Memory[ip+3]\<close> equals \<open>Memory[Memory[ip+1]] + Memory[Memory[ip+2]]\<close>, with every other
  cell unchanged (and the length kept), and the add operation's size is 4; the function
  the add operation stores is \<open>execute_add_operation\<close>.
\<close>

theorem add_operation_writes_sum:
  fixes memory :: Program and ip :: nat
  assumes "ip + 3 < length memory"
    and "a1 = memory ! (ip + 1)" and "a2 = memory ! (ip + 2)" and "a3 = memory ! (ip + 3)"
    and "0 \<le> a1 \<and> a1 < int (length memory)"
    and "0 \<le> a2 \<and> a2 < int (length memory)"
    and "0 \<le> a3 \<and> a3 < int (length memory)"
  shows "\<exists>memory1. execute_add_operation memory (int ip) = Inr memory1
           \<and> length memory1 = length memory
           \<and> memory1 ! nat a3 = memory ! nat a1 + memory ! nat a2
           \<and> (\<forall>k<length memory. k \<noteq> nat a3 \<longrightarrow> memory1 ! k = memory ! k)
           \<and> size_op ADD_OPERATION = 4
           \<and> call (execute ADD_OPERATION) = execute_add_operation"
proof -
  have "call (execute ADD_OPERATION) = execute_add_operation"
    by (rule ext)+ (simp add: ADD_OPERATION_def)
  moreover have "size_op ADD_OPERATION = 4"
    by (simp add: ADD_OPERATION_def)
  moreover have "execute_add_operation memory (int ip) =
      Inr (memory[nat a3 := memory ! nat a1 + memory ! nat a2])"
    using assms execute_add_operation_within [of ip memory] by simp
  moreover have "nat a3 < length memory"
    using assms(7) by linarith
  ultimately show ?thesis
    by simp
qed

text \<open>The theorem at the memory \<open>[1, 0, 0, 0, 99]\<close> and \<open>ip = 0\<close>.\<close>

theorem add_operation_writes_sum_witness:
  "\<exists>memory1. execute_add_operation [1, 0, 0, 0, 99] 0 = Inr memory1
     \<and> length memory1 = 5 \<and> memory1 ! 0 = 2 \<and> memory1 ! 4 = 99"
  using add_operation_writes_sum [of 0 "[1, 0, 0, 0, 99]" 0 0 0]
  by auto

section \<open>A literal scenario\<close>

text \<open>
  Claim C4. Simulating the initial memory \<open>[1,9,10,3,2,3,11,0,99,30,40,50]\<close> runs to halt,
  and the final memory has the value 3500 at address 0.
\<close>

theorem scenario_3500:
  "\<exists>final. simulate_program [1, 9, 10, 3, 2, 3, 11, 0, 99, 30, 40, 50] = Inr final
     \<and> getitem final 0 = Inr 3500
     \<and> final = [3500, 9, 10, 70, 2, 3, 11, 0, 99, 30, 40, 50]"
proof -
  have "simulate_program [1, 9, 10, 3, 2, 3, 11, 0, 99, 30, 40, 50]
        = Inr [3500, 9, 10, 70, 2, 3, 11, 0, 99, 30, 40, 50]"
    by code_simp
  moreover have "getitem [3500, 9, 10, 70, 2, 3, 11, 0, 99, 30, 40, 50 :: int] 0 = Inr 3500"
    by (simp add: getitem_def list_position_def)
  ultimately show ?thesis
    by simp
qed

section \<open>Dispatch and halting\<close>

lemma OPERATIONS_unknown:
  "code \<noteq> 1 \<Longrightarrow> code \<noteq> 2 \<Longrightarrow> code \<noteq> 99 \<Longrightarrow> OPERATIONS code = None"
  by (simp add: OPERATIONS_def ADD_OPERATION_def MULTIPLY_OPERATION_def HALT_OPERATION_def)

lemma dict_get_halting:
  "code \<noteq> 1 \<Longrightarrow> code \<noteq> 2 \<Longrightarrow> dict_get OPERATIONS code HALT_OPERATION = HALT_OPERATION"
  by (simp add: dict_get_def OPERATIONS_def ADD_OPERATION_def MULTIPLY_OPERATION_def
      HALT_OPERATION_def)

lemma loop_body_halting:
  "getitem program pointer = Inr code \<Longrightarrow> code \<noteq> 1 \<Longrightarrow> code \<noteq> 2
   \<Longrightarrow> loop_body program pointer = Inr None"
  by (simp add: loop_body_def dict_get_halting)

lemma simulate_loop_halting:
  "getitem program pointer = Inr code \<Longrightarrow> code \<noteq> 1 \<Longrightarrow> code \<noteq> 2
   \<Longrightarrow> simulate_loop program pointer = Inr program"
  by (simp add: simulate_loop.simps loop_body_halting)

lemma loop_body_add:
  "getitem program pointer = Inr 1 \<Longrightarrow>
   loop_body program pointer =
     (case execute_add_operation program pointer of
        Inl e \<Rightarrow> Inl e
      | Inr program1 \<Rightarrow> Inr (Some (program1, pointer + 4)))"
  by (simp add: loop_body_def dict_get_def OPERATIONS_def ADD_OPERATION_def
      MULTIPLY_OPERATION_def HALT_OPERATION_def split: sum.splits)

lemma loop_body_multiply:
  "getitem program pointer = Inr 2 \<Longrightarrow>
   loop_body program pointer =
     (case execute_multiply_operation program pointer of
        Inl e \<Rightarrow> Inl e
      | Inr program1 \<Rightarrow> Inr (Some (program1, pointer + 4)))"
  by (simp add: loop_body_def dict_get_def OPERATIONS_def ADD_OPERATION_def
      MULTIPLY_OPERATION_def HALT_OPERATION_def split: sum.splits)

lemma loop_body_error: "loop_body program pointer = Inl e \<Longrightarrow> e = IndexError"
proof -
  assume failed: "loop_body program pointer = Inl e"
  show "e = IndexError"
  proof (cases "getitem program pointer")
    case (Inl e')
    with failed show ?thesis
      by (auto simp: loop_body_def dest: getitem_error)
  next
    case (Inr code)
    consider "code = 1" | "code = 2" | "code \<noteq> 1" "code \<noteq> 2"
      by blast
    then show ?thesis
    proof cases
      case 1
      with failed Inr show ?thesis
        by (auto simp: loop_body_add split: sum.splits dest: execute_add_operation_error)
    next
      case 2
      with failed Inr show ?thesis
        by (auto simp: loop_body_multiply split: sum.splits
            dest: execute_multiply_operation_error)
    next
      case 3
      with failed Inr show ?thesis
        by (simp add: loop_body_halting)
    qed
  qed
qed

lemma simulate_loop_result:
  "simulate_loop program pointer = Inl IndexError
   \<or> (\<exists>final. simulate_loop program pointer = Inr final \<and> length final = length program)"
proof (induction program pointer rule: simulate_loop.induct)
  case (1 program pointer)
  show ?case
  proof (cases "loop_body program pointer")
    case (Inl e)
    then show ?thesis
      using loop_body_error [OF Inl] by (simp add: simulate_loop.simps)
  next
    case (Inr b)
    show ?thesis
    proof (cases b)
      case None
      with Inr show ?thesis
        by (simp add: simulate_loop.simps)
    next
      case (Some next_pass)
      obtain program1 pointer1 where next_pass: "next_pass = (program1, pointer1)"
        by (cases next_pass)
      from Inr Some next_pass have body: "loop_body program pointer = Inr (Some (program1, pointer1))"
        by simp
      from "1.IH" [OF Inr Some next_pass [symmetric]] loop_body_continues [OF body] body
      show ?thesis
        by (simp add: simulate_loop.simps)
    qed
  qed
qed

text \<open>
  Claim C3. For every opcode value not present in the operation registry (not 1, 2 or
  99), the registry lookup returns the halt operation rather than failing, so the
  interpreter treats an unrecognized opcode exactly like halt: the pass that reads it
  leaves the loop, and the interpreter returns the current memory.
\<close>

theorem unknown_opcode_halts:
  assumes "code \<noteq> 1" and "code \<noteq> 2" and "code \<noteq> 99"
  shows "OPERATIONS code = None
         \<and> dict_get OPERATIONS code HALT_OPERATION = HALT_OPERATION
         \<and> (\<forall>program pointer. getitem program pointer = Inr code \<longrightarrow>
               loop_body program pointer = Inr None
               \<and> simulate_loop program pointer = Inr program)
         \<and> (\<forall>program. getitem program 0 = Inr code \<longrightarrow> simulate_program program = Inr program)"
  using assms
  by (simp add: OPERATIONS_unknown dict_get_halting loop_body_halting simulate_loop_halting
      simulate_program_def)

text \<open>The theorem at the opcode 7 and the memory \<open>[7, 1, 2]\<close>.\<close>

theorem unknown_opcode_halts_witness:
  "OPERATIONS 7 = None \<and> dict_get OPERATIONS 7 HALT_OPERATION = HALT_OPERATION
   \<and> simulate_program [7, 1, 2] = Inr [7, 1, 2]"
proof -
  have "getitem [7, 1, 2 :: int] 0 = Inr 7"
    by (simp add: getitem_def list_position_def)
  with unknown_opcode_halts [of 7] show ?thesis
    by simp
qed

text \<open>
  Claim C5. For every memory image whose cell at address 0 is a halt (or otherwise
  unrecognized) opcode, that is, neither 1 nor 2, running the interpreter on it from
  \<open>ip = 0\<close> returns that memory unchanged; in particular, simulating the final memory of
  such a run a second time is the identity.
\<close>

theorem halted_memory_unchanged:
  assumes "memory \<noteq> []" and "memory ! 0 \<noteq> 1" and "memory ! 0 \<noteq> 2"
  shows "simulate_program memory = Inr memory
         \<and> (case simulate_program memory of
               Inl e \<Rightarrow> Inl e
             | Inr final \<Rightarrow> simulate_program final) = Inr memory"
proof -
  from assms(1) have "getitem memory 0 = Inr (memory ! 0)"
    using getitem_nat [of 0 memory] by simp
  from simulate_loop_halting [OF this assms(2,3)] show ?thesis
    by (simp add: simulate_program_def)
qed

text \<open>The theorem at the memory \<open>[99, 0, 0, 0, 2]\<close>, whose first cell is the halt opcode.\<close>

theorem halted_memory_unchanged_witness:
  "simulate_program [99, 0, 0, 0, 2] = Inr [99, 0, 0, 0, 2]
   \<and> (case simulate_program [99, 0, 0, 0, 2] of
         Inl e \<Rightarrow> Inl e
       | Inr final \<Rightarrow> simulate_program final) = Inr [99, 0, 0, 0, 2]"
  using halted_memory_unchanged [of "[99, 0, 0, 0, 2]"]
  by simp

text \<open>
  Claim C6. The halt operation performs no memory mutation and has size 1: the
  interpreter that meets opcode 99 halts without changing memory, and the halt
  operation's execute function applied to a memory and an instruction pointer leaves the
  memory unchanged. The code, at the memory \<open>[99]\<close> and the instruction pointer 0: the
  size is 1 and the interpreter returns the memory unchanged, without applying the
  execute function; but the function stored is the builtin \<^verbatim>\<open>id\<close>, not an identity on
  programs, and applied to the memory and the instruction pointer it raises
  \<^verbatim>\<open>TypeError\<close> and returns no memory.
\<close>

theorem halt_execute_raises:
  "size_op HALT_OPERATION = 1
   \<and> call (execute HALT_OPERATION) [99] 0 = Inl TypeError
   \<and> simulate_program [99] = Inr [99]"
proof -
  have "simulate_program [99] = Inr [99]"
    by code_simp
  then show ?thesis
    by (simp add: HALT_OPERATION_def)
qed

section \<open>Termination of the interpreter\<close>

lemma simulate_passes_enough:
  "nat ((int (length program) - pointer + 3) div 4) + 1 \<le> n
   \<Longrightarrow> simulate_passes n program pointer = Some (simulate_loop program pointer)"
proof (induction n arbitrary: program pointer)
  case 0
  then show ?case by simp
next
  case (Suc n)
  show ?case
  proof (cases "loop_body program pointer")
    case (Inl e)
    then show ?thesis
      by (simp add: simulate_loop.simps)
  next
    case (Inr b)
    show ?thesis
    proof (cases b)
      case None
      with Inr show ?thesis
        by (simp add: simulate_loop.simps)
    next
      case (Some next_pass)
      obtain program1 pointer1 where next_pass: "next_pass = (program1, pointer1)"
        by (cases next_pass)
      from Inr Some next_pass have body: "loop_body program pointer = Inr (Some (program1, pointer1))"
        by simp
      from loop_body_continues [OF body]
      have inside: "pointer < int (length program)"
        and same: "length program1 = length program" and moved: "pointer1 = pointer + 4"
        by simp_all
      from inside Suc.prems have "nat ((int (length program) - (pointer + 4) + 3) div 4) + 1 \<le> n"
        by linarith
      with same moved have "simulate_passes n program1 pointer1 = Some (simulate_loop program1 pointer1)"
        using Suc.IH [of program1 pointer1] by simp
      with body show ?thesis
        by (simp add: simulate_loop.simps)
    qed
  qed
qed

text \<open>
  Claim C10. \<open>simulate_program\<close> terminates on every finite memory image: each pass of
  the loop either stops (a fault, or a halt or unrecognized opcode) or advances the
  pointer by the operation's size, 4 for add and multiply, keeping the length of the
  memory; so the run either halts or faults out of bounds within
  \<open>ceil(len(Memory) / 4) + 1\<close> passes, and gives the result of \<open>simulate_program\<close>,
  which is defined for every memory.
\<close>

theorem simulate_program_terminates:
  "simulate_passes ((length memory + 3) div 4 + 1) memory 0 = Some (simulate_program memory)
   \<and> (simulate_program memory = Inl IndexError
      \<or> (\<exists>final. simulate_program memory = Inr final \<and> length final = length memory))
   \<and> (loop_body memory pointer = Inl IndexError
      \<or> loop_body memory pointer = Inr None
      \<or> (\<exists>memory1. loop_body memory pointer = Inr (Some (memory1, pointer + 4))
            \<and> length memory1 = length memory \<and> pointer < int (length memory)))"
proof -
  have "nat ((int (length memory) - 0 + 3) div 4) + 1 \<le> (length memory + 3) div 4 + 1"
    by linarith
  from simulate_passes_enough [OF this]
  have "simulate_passes ((length memory + 3) div 4 + 1) memory 0 = Some (simulate_program memory)"
    by (simp add: simulate_program_def)
  moreover have "simulate_program memory = Inl IndexError
      \<or> (\<exists>final. simulate_program memory = Inr final \<and> length final = length memory)"
    using simulate_loop_result [of memory 0] by (simp add: simulate_program_def)
  moreover have "loop_body memory pointer = Inl IndexError
      \<or> loop_body memory pointer = Inr None
      \<or> (\<exists>memory1. loop_body memory pointer = Inr (Some (memory1, pointer + 4))
            \<and> length memory1 = length memory \<and> pointer < int (length memory))"
  proof (cases "loop_body memory pointer")
    case (Inl e)
    with loop_body_error [OF Inl] show ?thesis
      by simp
  next
    case (Inr b)
    show ?thesis
    proof (cases b)
      case None
      with Inr show ?thesis
        by simp
    next
      case (Some next_pass)
      obtain memory1 pointer1 where "next_pass = (memory1, pointer1)"
        by (cases next_pass)
      with Inr Some have body: "loop_body memory pointer = Inr (Some (memory1, pointer1))"
        by simp
      from loop_body_continues [OF body] body show ?thesis
        by simp
    qed
  qed
  ultimately show ?thesis
    by blast
qed

section \<open>Addresses at and beyond the bounds of the memory\<close>

text \<open>
  With its three parameter words inside the program, an operation reads at the first two
  addresses and assigns at the third.
\<close>

lemma parameter_words:
  fixes program :: Program and ip :: nat
  assumes "ip + 3 < length program"
  shows "getitem program (int ip + 1) = Inr (program ! (ip + 1))"
    and "getitem program (int ip + 2) = Inr (program ! (ip + 2))"
    and "getitem program (int ip + 3) = Inr (program ! (ip + 3))"
  using assms getitem_nat [of "ip + 1" program] getitem_nat [of "ip + 2" program]
    getitem_nat [of "ip + 3" program]
  by (simp_all add: add.commute)

lemma execute_add_operation_words:
  fixes program :: Program and ip :: nat
  assumes "ip + 3 < length program"
  shows "execute_add_operation program (int ip) =
     (case getitem program (program ! (ip + 1)) of
        Inl e \<Rightarrow> Inl e
      | Inr value_1 \<Rightarrow>
         (case getitem program (program ! (ip + 2)) of
            Inl e \<Rightarrow> Inl e
          | Inr value_2 \<Rightarrow> setitem program (program ! (ip + 3)) (value_1 + value_2)))"
  by (simp add: execute_add_operation_def parameter_words [OF assms] split: sum.splits)

lemma execute_multiply_operation_words:
  fixes program :: Program and ip :: nat
  assumes "ip + 3 < length program"
  shows "execute_multiply_operation program (int ip) =
     (case getitem program (program ! (ip + 1)) of
        Inl e \<Rightarrow> Inl e
      | Inr value_1 \<Rightarrow>
         (case getitem program (program ! (ip + 2)) of
            Inl e \<Rightarrow> Inl e
          | Inr value_2 \<Rightarrow> setitem program (program ! (ip + 3)) (value_1 * value_2)))"
  by (simp add: execute_multiply_operation_def parameter_words [OF assms] split: sum.splits)

lemma getitem_accepted:
  "- int (length xs) \<le> i \<Longrightarrow> i < int (length xs)
   \<Longrightarrow> getitem xs i = Inr (xs ! nat (if i < 0 then int (length xs) + i else i))"
  by (simp add: getitem_def list_position_def)

lemma setitem_accepted:
  "- int (length xs) \<le> i \<Longrightarrow> i < int (length xs)
   \<Longrightarrow> setitem xs i v = Inr (xs[nat (if i < 0 then int (length xs) + i else i) := v])"
  by (simp add: setitem_def list_position_def)

lemma operations_accepted:
  fixes program :: Program and ip :: nat
  assumes "ip + 3 < length program"
    and "- int (length program) \<le> program ! (ip + 1)" "program ! (ip + 1) < int (length program)"
    and "- int (length program) \<le> program ! (ip + 2)" "program ! (ip + 2) < int (length program)"
    and "- int (length program) \<le> program ! (ip + 3)" "program ! (ip + 3) < int (length program)"
    and "k1 = nat (if program ! (ip + 1) < 0 then int (length program) + program ! (ip + 1)
                   else program ! (ip + 1))"
    and "k2 = nat (if program ! (ip + 2) < 0 then int (length program) + program ! (ip + 2)
                   else program ! (ip + 2))"
    and "k3 = nat (if program ! (ip + 3) < 0 then int (length program) + program ! (ip + 3)
                   else program ! (ip + 3))"
  shows "execute_add_operation program (int ip) = Inr (program[k3 := program ! k1 + program ! k2])"
    and "execute_multiply_operation program (int ip)
         = Inr (program[k3 := program ! k1 * program ! k2])"
  using assms(2-)
  by (simp_all only: execute_add_operation_words [OF assms(1)]
      execute_multiply_operation_words [OF assms(1)] getitem_accepted setitem_accepted
      sum.case)

lemma operations_rejected:
  fixes program :: Program and ip :: nat
  assumes "ip + 3 < length program"
    and "\<exists>j\<in>{1, 2, 3}. program ! (ip + j) < - int (length program)
           \<or> int (length program) \<le> program ! (ip + j)"
  shows "execute_add_operation program (int ip) = Inl IndexError"
    and "execute_multiply_operation program (int ip) = Inl IndexError"
proof -
  from assms(2) consider
      "getitem program (program ! (ip + 1)) = Inl IndexError"
    | "getitem program (program ! (ip + 2)) = Inl IndexError"
    | "\<And>v. setitem program (program ! (ip + 3)) v = Inl IndexError"
    using getitem_outside [of program] setitem_outside [of program] by auto
  note outside = this
  from outside show "execute_add_operation program (int ip) = Inl IndexError"
    by cases (auto simp: execute_add_operation_words [OF assms(1)] split: sum.splits
        dest: getitem_error)
  from outside show "execute_multiply_operation program (int ip) = Inl IndexError"
    by cases (auto simp: execute_multiply_operation_words [OF assms(1)] split: sum.splits
        dest: getitem_error)
qed

lemma simulate_loop_fault:
  assumes "getitem program pointer = Inr code"
    and "code = 1 \<and> execute_add_operation program pointer = Inl e
         \<or> code = 2 \<and> execute_multiply_operation program pointer = Inl e"
  shows "simulate_loop program pointer = Inl e"
  using assms by (auto simp: simulate_loop.simps loop_body_add loop_body_multiply)

text \<open>
  Claim C8. For every memory image, an add or multiply operation whose computed read or
  write address equals \<open>len(Memory) - 1\<close> succeeds (its other addresses being within
  bounds), and one whose computed address equals \<open>len(Memory)\<close> fails with the
  out-of-bounds error, Python's \<^verbatim>\<open>IndexError\<close>, rather than continuing execution: the
  interpreter that meets it stops with that error.
\<close>

theorem boundary_addresses:
  fixes memory :: Program and ip :: nat
  assumes "ip + 3 < length memory"
    and "a1 = memory ! (ip + 1)" and "a2 = memory ! (ip + 2)" and "a3 = memory ! (ip + 3)"
    and "len = int (length memory)"
  shows "((a1 = len - 1 \<or> a2 = len - 1 \<or> a3 = len - 1)
          \<and> 0 \<le> a1 \<and> a1 < len \<and> 0 \<le> a2 \<and> a2 < len \<and> 0 \<le> a3 \<and> a3 < len \<longrightarrow>
            execute_add_operation memory (int ip)
              = Inr (memory[nat a3 := memory ! nat a1 + memory ! nat a2])
            \<and> execute_multiply_operation memory (int ip)
              = Inr (memory[nat a3 := memory ! nat a1 * memory ! nat a2]))
         \<and> (a1 = len \<or> a2 = len \<or> a3 = len \<longrightarrow>
            execute_add_operation memory (int ip) = Inl IndexError
            \<and> execute_multiply_operation memory (int ip) = Inl IndexError
            \<and> (memory ! ip = 1 \<or> memory ! ip = 2 \<longrightarrow>
                 simulate_loop memory (int ip) = Inl IndexError))"
proof (intro conjI impI)
  assume inside: "(a1 = len - 1 \<or> a2 = len - 1 \<or> a3 = len - 1)
      \<and> 0 \<le> a1 \<and> a1 < len \<and> 0 \<le> a2 \<and> a2 < len \<and> 0 \<le> a3 \<and> a3 < len"
  then have bounds: "- int (length memory) \<le> memory ! (ip + 1)"
      "memory ! (ip + 1) < int (length memory)"
      "- int (length memory) \<le> memory ! (ip + 2)"
      "memory ! (ip + 2) < int (length memory)"
      "- int (length memory) \<le> memory ! (ip + 3)"
      "memory ! (ip + 3) < int (length memory)"
    and positive: "\<not> a1 < 0" "\<not> a2 < 0" "\<not> a3 < 0"
    unfolding assms(2-5) by linarith+
  from positive
  show "execute_add_operation memory (int ip)
        = Inr (memory[nat a3 := memory ! nat a1 + memory ! nat a2])"
    unfolding operations_accepted(1) [OF assms(1) bounds refl refl refl]
    by (simp only: assms(2-4) [symmetric] if_False)
  from positive
  show "execute_multiply_operation memory (int ip)
        = Inr (memory[nat a3 := memory ! nat a1 * memory ! nat a2])"
    unfolding operations_accepted(2) [OF assms(1) bounds refl refl refl]
    by (simp only: assms(2-4) [symmetric] if_False)
next
  assume "a1 = len \<or> a2 = len \<or> a3 = len"
  then have outside: "\<exists>j\<in>{1, 2, 3}. memory ! (ip + j) < - int (length memory)
      \<or> int (length memory) \<le> memory ! (ip + j)"
    unfolding assms(2-5) by auto
  from operations_rejected [OF assms(1) outside]
  show add: "execute_add_operation memory (int ip) = Inl IndexError"
    and multiply: "execute_multiply_operation memory (int ip) = Inl IndexError"
    by simp_all
  assume "memory ! ip = 1 \<or> memory ! ip = 2"
  moreover from assms(1) have "getitem memory (int ip) = Inr (memory ! ip)"
    by (simp add: getitem_nat)
  ultimately show "simulate_loop memory (int ip) = Inl IndexError"
    using add multiply by (auto intro: simulate_loop_fault)
qed

text \<open>
  The theorem at \<open>[1, 4, 4, 4, 99]\<close>, whose three addresses are \<open>len - 1 = 4\<close>, and at
  \<open>[1, 5, 0, 0, 99]\<close>, whose first address is \<open>len = 5\<close>.
\<close>

theorem boundary_addresses_witness:
  "execute_add_operation [1, 4, 4, 4, 99] 0 = Inr [1, 4, 4, 4, 198]
   \<and> execute_multiply_operation [1, 4, 4, 4, 99] 0 = Inr [1, 4, 4, 4, 9801]
   \<and> execute_add_operation [1, 5, 0, 0, 99] 0 = Inl IndexError
   \<and> execute_multiply_operation [1, 5, 0, 0, 99] 0 = Inl IndexError
   \<and> simulate_loop [1, 5, 0, 0, 99] 0 = Inl IndexError"
proof -
  have inside: "(0::nat) + 3 < length [1, 4, 4, 4, 99 :: int]"
    and inside': "(0::nat) + 3 < length [1, 5, 0, 0, 99 :: int]"
    by simp_all
  have "execute_add_operation [1, 4, 4, 4, 99] 0 = Inr [1, 4, 4, 4, 198]
      \<and> execute_multiply_operation [1, 4, 4, 4, 99] 0 = Inr [1, 4, 4, 4, 9801]"
    using boundary_addresses [OF inside refl refl refl refl] by simp
  moreover have "execute_add_operation [1, 5, 0, 0, 99] 0 = Inl IndexError
      \<and> execute_multiply_operation [1, 5, 0, 0, 99] 0 = Inl IndexError
      \<and> simulate_loop [1, 5, 0, 0, 99] 0 = Inl IndexError"
    using boundary_addresses [OF inside' refl refl refl refl] by simp
  ultimately show ?thesis
    by simp
qed

text \<open>
  Claim C9, as stated: an add or multiply instruction whose parameter word is a
  negative address does not fail, and out-of-bounds is only detected for addresses at
  or past \<open>len(Memory)\<close>, not for negative ones. It fails on the memory
  \<open>[1, -6, 0, 0, 99]\<close>, of length 5: the address \<open>-6\<close> is below \<open>-len(Memory)\<close> and the
  add raises \<^verbatim>\<open>IndexError\<close>.
\<close>

theorem negative_address_counterexample:
  "execute_add_operation [1, - 6, 0, 0, 99] 0 = Inl IndexError"
  by code_simp

text \<open>
  Claim C9, amended. In an add or multiply instruction a negative address \<open>a\<close> with
  \<open>-len(Memory) \<le> a < 0\<close> is silently resolved to the position \<open>len(Memory) + a\<close>: the
  instruction succeeds exactly when each of its three addresses lies in
  \<open>[-len(Memory), len(Memory))\<close>, and reads and writes at the resolved positions.
  Out-of-bounds is detected, as \<^verbatim>\<open>IndexError\<close>, for addresses at or past \<open>len(Memory)\<close>
  and for negative addresses below \<open>-len(Memory)\<close>.
\<close>

theorem negative_address_resolved:
  fixes memory :: Program and ip :: nat
  assumes "ip + 3 < length memory"
    and "a1 = memory ! (ip + 1)" and "a2 = memory ! (ip + 2)" and "a3 = memory ! (ip + 3)"
    and "len = int (length memory)"
    and "k1 = nat (if a1 < 0 then len + a1 else a1)"
    and "k2 = nat (if a2 < 0 then len + a2 else a2)"
    and "k3 = nat (if a3 < 0 then len + a3 else a3)"
  shows "(- len \<le> a1 \<and> a1 < len \<and> - len \<le> a2 \<and> a2 < len \<and> - len \<le> a3 \<and> a3 < len \<longrightarrow>
            execute_add_operation memory (int ip) = Inr (memory[k3 := memory ! k1 + memory ! k2])
            \<and> execute_multiply_operation memory (int ip)
              = Inr (memory[k3 := memory ! k1 * memory ! k2]))
         \<and> (a1 < - len \<or> len \<le> a1 \<or> a2 < - len \<or> len \<le> a2 \<or> a3 < - len \<or> len \<le> a3 \<longrightarrow>
            execute_add_operation memory (int ip) = Inl IndexError
            \<and> execute_multiply_operation memory (int ip) = Inl IndexError)"
proof (intro conjI impI)
  assume "- len \<le> a1 \<and> a1 < len \<and> - len \<le> a2 \<and> a2 < len \<and> - len \<le> a3 \<and> a3 < len"
  then have bounds: "- int (length memory) \<le> memory ! (ip + 1)"
      "memory ! (ip + 1) < int (length memory)"
      "- int (length memory) \<le> memory ! (ip + 2)"
      "memory ! (ip + 2) < int (length memory)"
      "- int (length memory) \<le> memory ! (ip + 3)"
      "memory ! (ip + 3) < int (length memory)"
    unfolding assms(2-5) by linarith+
  show "execute_add_operation memory (int ip) = Inr (memory[k3 := memory ! k1 + memory ! k2])"
    unfolding assms(2-) by (rule operations_accepted(1) [OF assms(1) bounds refl refl refl])
  show "execute_multiply_operation memory (int ip)
        = Inr (memory[k3 := memory ! k1 * memory ! k2])"
    unfolding assms(2-) by (rule operations_accepted(2) [OF assms(1) bounds refl refl refl])
next
  assume "a1 < - len \<or> len \<le> a1 \<or> a2 < - len \<or> len \<le> a2 \<or> a3 < - len \<or> len \<le> a3"
  then have outside: "\<exists>j\<in>{1, 2, 3}. memory ! (ip + j) < - int (length memory)
      \<or> int (length memory) \<le> memory ! (ip + j)"
    unfolding assms(2-5) by auto
  from operations_rejected [OF assms(1) outside]
  show "execute_add_operation memory (int ip) = Inl IndexError"
    and "execute_multiply_operation memory (int ip) = Inl IndexError"
    by simp_all
qed

text \<open>
  The theorem at \<open>[1, -1, -5, -2, 99]\<close>, whose addresses resolve to the positions 4, 0
  and 3, and at \<open>[2, 0, 0, -6, 99]\<close>, whose write address is below \<open>-len\<close>.
\<close>

theorem negative_address_resolved_witness:
  "execute_add_operation [1, - 1, - 5, - 2, 99] 0 = Inr [1, - 1, - 5, 100, 99]
   \<and> execute_multiply_operation [1, - 1, - 5, - 2, 99] 0 = Inr [1, - 1, - 5, 99, 99]
   \<and> execute_add_operation [2, 0, 0, - 6, 99] 0 = Inl IndexError
   \<and> execute_multiply_operation [2, 0, 0, - 6, 99] 0 = Inl IndexError"
proof -
  have inside: "(0::nat) + 3 < length [1, - 1, - 5, - 2, 99 :: int]"
    and inside': "(0::nat) + 3 < length [2, 0, 0, - 6, 99 :: int]"
    by simp_all
  have "execute_add_operation [1, - 1, - 5, - 2, 99] 0 = Inr [1, - 1, - 5, 100, 99]
      \<and> execute_multiply_operation [1, - 1, - 5, - 2, 99] 0 = Inr [1, - 1, - 5, 99, 99]"
    using negative_address_resolved [OF inside refl refl refl refl refl refl refl] by simp
  moreover have "execute_add_operation [2, 0, 0, - 6, 99] 0 = Inl IndexError
      \<and> execute_multiply_operation [2, 0, 0, - 6, 99] 0 = Inl IndexError"
    using negative_address_resolved [OF inside' refl refl refl refl refl refl refl] by simp
  ultimately show ?thesis
    by simp
qed

section \<open>The store functions and their values\<close>

lemma list_copy_value:
  "list_copy h r = (h1, c) \<Longrightarrow>
   c = lim h \<and> lim h1 = Suc (lim h) \<and> objs h1 c = objs h r \<and> (\<forall>r'<lim h. objs h1 r' = objs h r')"
  by (auto simp: list_copy_def)

lemma list_setitem_value:
  "list_setitem h r i v = Inr h1 \<Longrightarrow>
   setitem (objs h r) i v = Inr (objs h1 r) \<and> lim h1 = lim h \<and> (\<forall>r'. r' \<noteq> r \<longrightarrow> objs h1 r' = objs h r')"
  by (auto simp: list_setitem_def split: sum.splits)

lemma list_setitem_error:
  "list_setitem h r i v = Inl e \<Longrightarrow> setitem (objs h r) i v = Inl e"
  by (auto simp: list_setitem_def split: sum.splits)

lemma execute_add_operation_heap_value:
  assumes "execute_add_operation_heap h program ip = (h1, res)"
  shows "(case res of
            Inl e \<Rightarrow> execute_add_operation (objs h program) ip = Inl e
          | Inr updated \<Rightarrow> execute_add_operation (objs h program) ip = Inr (objs h1 updated)
              \<and> lim h \<le> updated \<and> updated < lim h1)
         \<and> (\<forall>r<lim h. objs h1 r = objs h r)"
  using assms
  by (auto simp: execute_add_operation_heap_def execute_add_operation_def list_getitem_def
      list_setitem_def list_copy_def Let_def split: sum.splits)

lemma execute_multiply_operation_heap_value:
  assumes "execute_multiply_operation_heap h program ip = (h1, res)"
  shows "(case res of
            Inl e \<Rightarrow> execute_multiply_operation (objs h program) ip = Inl e
          | Inr updated \<Rightarrow>
              execute_multiply_operation (objs h program) ip = Inr (objs h1 updated)
              \<and> lim h \<le> updated \<and> updated < lim h1)
         \<and> (\<forall>r<lim h. objs h1 r = objs h r)"
  using assms
  by (auto simp: execute_multiply_operation_heap_def execute_multiply_operation_def
      list_getitem_def list_setitem_def list_copy_def Let_def split: sum.splits)

lemma set_program_parameters_heap_value:
  assumes "set_program_parameters_heap h program n v = (h1, res)"
  shows "(case res of
            Inl e \<Rightarrow> set_program_parameters (objs h program) n v = Inl e
          | Inr configured \<Rightarrow>
              set_program_parameters (objs h program) n v = Inr (objs h1 configured)
              \<and> lim h \<le> configured \<and> configured < lim h1)
         \<and> (\<forall>r<lim h. objs h1 r = objs h r)"
  using assms
  by (auto simp: set_program_parameters_heap_def set_program_parameters_def
      list_setitem_def list_copy_def Let_def split: sum.splits)

lemma set_program_parameters_value:
  assumes "3 \<le> length program"
  shows "set_program_parameters program n v = Inr (program[1 := n, 2 := v])"
proof -
  from assms have "setitem program 1 n = Inr (program[1 := n])"
    using setitem_within [of 1 program n] by simp
  moreover from assms have "setitem (program[1 := n]) 2 v = Inr (program[1 := n, 2 := v])"
    using setitem_within [of 2 "program[1 := n]" v] by simp
  ultimately show ?thesis
    by (simp add: set_program_parameters_def)
qed

text \<open>
  Claim C7. For every program of length at least 3, \<open>set_program_parameters\<close> returns a
  fresh copy (a reference that was not allocated before the call) with the noun written
  at address 1 and the verb at address 2, every other address holding the same value as
  the original, and the original program object, like every list allocated before the
  call, left unmodified. The list the copy holds is the value of the function on values.
\<close>

theorem set_program_parameters_fresh_copy:
  assumes "program < lim h" and "3 \<le> length (objs h program)"
  shows "\<exists>h1 configured.
           set_program_parameters_heap h program n v = (h1, Inr configured)
           \<and> lim h \<le> configured \<and> configured < lim h1 \<and> configured \<noteq> program
           \<and> length (objs h1 configured) = length (objs h program)
           \<and> objs h1 configured ! 1 = n
           \<and> objs h1 configured ! 2 = v
           \<and> (\<forall>i<length (objs h program).
                 i \<noteq> 1 \<and> i \<noteq> 2 \<longrightarrow> objs h1 configured ! i = objs h program ! i)
           \<and> objs h1 program = objs h program
           \<and> (\<forall>r<lim h. objs h1 r = objs h r)
           \<and> set_program_parameters (objs h program) n v = Inr (objs h1 configured)"
proof -
  obtain h1 res where run: "set_program_parameters_heap h program n v = (h1, res)"
    by (cases "set_program_parameters_heap h program n v")
  note on_values = set_program_parameters_heap_value [OF run]
  from on_values set_program_parameters_value [OF assms(2), of n v]
  obtain configured where res: "res = Inr configured"
    by (cases res) auto
  from on_values res set_program_parameters_value [OF assms(2), of n v]
  have copy: "objs h1 configured = (objs h program)[1 := n, 2 := v]"
    and fresh: "lim h \<le> configured" "configured < lim h1"
    and frame: "\<forall>r<lim h. objs h1 r = objs h r"
    by simp_all
  from copy assms(2) have "objs h1 configured ! 1 = n" "objs h1 configured ! 2 = v"
    "length (objs h1 configured) = length (objs h program)"
    "\<forall>i<length (objs h program).
       i \<noteq> 1 \<and> i \<noteq> 2 \<longrightarrow> objs h1 configured ! i = objs h program ! i"
    by simp_all
  moreover from fresh assms(1) frame have "configured \<noteq> program" "objs h1 program = objs h program"
    by auto
  moreover from copy set_program_parameters_value [OF assms(2), of n v]
  have "set_program_parameters (objs h program) n v = Inr (objs h1 configured)"
    by simp
  ultimately show ?thesis
    using run res fresh frame by blast
qed

text \<open>
  The theorem in a store with one list, \<open>[1, 0, 0, 0, 99]\<close> at reference 0: the copy is
  another reference and holds \<open>[1, 12, 2, 0, 99]\<close>, and reference 0 holds what it held.
\<close>

theorem set_program_parameters_fresh_copy_witness:
  "\<exists>h1 configured.
     set_program_parameters_heap \<lparr>objs = (\<lambda>r. [1, 0, 0, 0, 99]), lim = 1\<rparr> 0 12 2
       = (h1, Inr configured)
     \<and> configured \<noteq> 0
     \<and> objs h1 configured = [1, 12, 2, 0, 99]
     \<and> objs h1 0 = [1, 0, 0, 0, 99]"
proof -
  let ?h = "\<lparr>objs = (\<lambda>r. [1, 0, 0, 0, 99 :: int]), lim = 1\<rparr>"
  have allocated: "0 < lim ?h" and long: "3 \<le> length (objs ?h 0)"
    by simp_all
  have "set_program_parameters [1, 0, 0, 0, 99] 12 2 = Inr [1, 12, 2, 0, 99]"
    by code_simp
  with set_program_parameters_fresh_copy [OF allocated long, of 12 2] show ?thesis
    by auto
qed

section \<open>The parameter search\<close>

lemma range_list_set: "set (range_list k) = {x. 0 \<le> x \<and> x < int k}"
proof -
  have "x \<in> int ` {0..<k} \<longleftrightarrow> 0 \<le> x \<and> x < int k" for x
  proof
    assume "x \<in> int ` {0..<k}"
    then show "0 \<le> x \<and> x < int k" by auto
  next
    assume "0 \<le> x \<and> x < int k"
    then have "nat x \<in> {0..<k}" "x = int (nat x)" by auto
    then show "x \<in> int ` {0..<k}" by (rule_tac image_eqI)
  qed
  then show ?thesis
    by (auto simp: range_list_def)
qed

lemma range_list_increasing: "sorted_wrt (<) (range_list k)"
  by (simp add: range_list_def sorted_wrt_map sorted_wrt_upt [unfolded sorted_wrt_iff_nth_less]
      sorted_wrt_iff_nth_less)

lemma TARGET_PARAMETER_RANGE_set: "x \<in> set TARGET_PARAMETER_RANGE \<longleftrightarrow> 0 \<le> x \<and> x < 100"
  by (simp add: TARGET_PARAMETER_RANGE_def range_list_set)

lemma TARGET_PARAMETER_RANGE_increasing: "sorted_wrt (<) TARGET_PARAMETER_RANGE"
  by (simp add: TARGET_PARAMETER_RANGE_def range_list_increasing)

lemma set_program_parameters_error: "set_program_parameters program n v = Inl e \<Longrightarrow> e = IndexError"
  by (auto simp: set_program_parameters_def split: sum.splits dest: setitem_error)

lemma parameters_yield_target_output_error:
  assumes "parameters_yield_target_output program parameters target = Inl e"
  shows "e = IndexError"
proof (cases "set_program_parameters program (noun parameters) (verb parameters)")
  case (Inl e')
  with assms set_program_parameters_error [OF Inl] show ?thesis
    by (simp add: parameters_yield_target_output_def)
next
  case configured: (Inr configured_program)
  show ?thesis
  proof (cases "simulate_program configured_program")
    case (Inl e')
    with simulate_loop_result [of configured_program 0] assms configured show ?thesis
      by (simp add: parameters_yield_target_output_def simulate_program_def)
  next
    case (Inr final_state)
    with assms configured show ?thesis
      by (auto simp: parameters_yield_target_output_def read_output_def split: sum.splits
          dest: getitem_error)
  qed
qed

text \<open>The inner loop: when it ends without a return, when it returns, when it raises.\<close>

lemma for_verb_exhausted:
  "for_verb program target n verbs = Inr None \<longleftrightarrow>
   (\<forall>v\<in>set verbs. parameters_yield_target_output program \<lparr>noun = n, verb = v\<rparr> target = Inr False)"
  by (induction verbs) (auto simp: Let_def split: sum.splits)

lemma for_verb_returns:
  "sorted_wrt (<) verbs \<Longrightarrow>
   for_verb program target n verbs = Inr (Some parameters) \<longleftrightarrow>
   noun parameters = n \<and> verb parameters \<in> set verbs
   \<and> parameters_yield_target_output program parameters target = Inr True
   \<and> (\<forall>v\<in>set verbs. v < verb parameters \<longrightarrow>
         parameters_yield_target_output program \<lparr>noun = n, verb = v\<rparr> target = Inr False)"
proof (induction verbs)
  case Nil
  then show ?case by simp
next
  case (Cons v verbs)
  then have later: "\<forall>u\<in>set verbs. v < u" and sorted: "sorted_wrt (<) verbs"
    by simp_all
  note IH = Cons.IH [OF sorted]
  show ?case
  proof (cases "parameters_yield_target_output program \<lparr>noun = n, verb = v\<rparr> target")
    case (Inl e)
    with later show ?thesis
      by (cases parameters) (auto simp: Let_def split: sum.splits)
  next
    case (Inr found)
    show ?thesis
    proof (cases found)
      case True
      with Inr later show ?thesis
        by (cases parameters) (auto simp: Let_def split: sum.splits)
    next
      case False
      with Inr later IH show ?thesis
        by (cases parameters) (auto simp: Let_def split: sum.splits)
    qed
  qed
qed

lemma for_verb_raises:
  "sorted_wrt (<) verbs \<Longrightarrow>
   for_verb program target n verbs = Inl e \<longleftrightarrow>
   (\<exists>v\<in>set verbs. parameters_yield_target_output program \<lparr>noun = n, verb = v\<rparr> target = Inl e
      \<and> (\<forall>u\<in>set verbs. u < v \<longrightarrow>
            parameters_yield_target_output program \<lparr>noun = n, verb = u\<rparr> target = Inr False))"
proof (induction verbs)
  case Nil
  then show ?case by simp
next
  case (Cons v verbs)
  then have later: "\<forall>u\<in>set verbs. v < u" and sorted: "sorted_wrt (<) verbs"
    by simp_all
  note IH = Cons.IH [OF sorted]
  show ?case
  proof (cases "parameters_yield_target_output program \<lparr>noun = n, verb = v\<rparr> target")
    case (Inl e')
    with later show ?thesis
      by (auto simp: Let_def split: sum.splits)
  next
    case (Inr found)
    show ?thesis
    proof (cases found)
      case True
      with Inr later show ?thesis
        by (auto simp: Let_def split: sum.splits)
    next
      case False
      with Inr later IH show ?thesis
        by (auto simp: Let_def split: sum.splits)
    qed
  qed
qed

text \<open>The outer loop: when it returns, when it raises.\<close>

lemma for_noun_returns:
  "sorted_wrt (<) nouns \<Longrightarrow>
   for_noun program target nouns = Inr parameters \<longleftrightarrow>
   (\<exists>n\<in>set nouns. for_verb program target n TARGET_PARAMETER_RANGE = Inr (Some parameters)
      \<and> (\<forall>m\<in>set nouns. m < n \<longrightarrow>
            for_verb program target m TARGET_PARAMETER_RANGE = Inr None))"
proof (induction nouns)
  case Nil
  then show ?case by simp
next
  case (Cons n nouns)
  then have later: "\<forall>m\<in>set nouns. n < m" and sorted: "sorted_wrt (<) nouns"
    by simp_all
  note IH = Cons.IH [OF sorted]
  show ?case
  proof (cases "for_verb program target n TARGET_PARAMETER_RANGE")
    case (Inl e)
    with later show ?thesis
      by auto
  next
    case (Inr returned)
    show ?thesis
    proof (cases returned)
      case None
      with Inr later IH show ?thesis
        by auto
    next
      case (Some parameters')
      with Inr later show ?thesis
        by auto
    qed
  qed
qed

lemma for_noun_raises:
  "sorted_wrt (<) nouns \<Longrightarrow>
   for_noun program target nouns = Inl e \<longleftrightarrow>
   (e = ValueError
      \<and> (\<forall>n\<in>set nouns. for_verb program target n TARGET_PARAMETER_RANGE = Inr None))
   \<or> (\<exists>n\<in>set nouns. for_verb program target n TARGET_PARAMETER_RANGE = Inl e
        \<and> (\<forall>m\<in>set nouns. m < n \<longrightarrow>
              for_verb program target m TARGET_PARAMETER_RANGE = Inr None))"
proof (induction nouns)
  case Nil
  then show ?case by auto
next
  case (Cons n nouns)
  then have later: "\<forall>m\<in>set nouns. n < m" and sorted: "sorted_wrt (<) nouns"
    by simp_all
  note IH = Cons.IH [OF sorted]
  show ?case
  proof (cases "for_verb program target n TARGET_PARAMETER_RANGE")
    case (Inl e')
    with later show ?thesis
      by auto
  next
    case (Inr returned)
    show ?thesis
    proof (cases returned)
      case None
      with Inr later IH show ?thesis
        by auto
    next
      case (Some parameters')
      with Inr later show ?thesis
        by auto
    qed
  qed
qed

lemma find_parameters_returns:
  "find_parameters_for_output program target = Inr parameters \<longleftrightarrow>
   0 \<le> noun parameters \<and> noun parameters < 100
   \<and> 0 \<le> verb parameters \<and> verb parameters < 100
   \<and> parameters_yield_target_output program parameters target = Inr True
   \<and> (\<forall>n v. 0 \<le> n \<and> n < 100 \<and> 0 \<le> v \<and> v < 100
          \<and> (n < noun parameters \<or> n = noun parameters \<and> v < verb parameters) \<longrightarrow>
          parameters_yield_target_output program \<lparr>noun = n, verb = v\<rparr> target = Inr False)"
  unfolding find_parameters_for_output_def
    for_noun_returns [OF TARGET_PARAMETER_RANGE_increasing]
    for_verb_returns [OF TARGET_PARAMETER_RANGE_increasing]
    for_verb_exhausted Ball_def Bex_def TARGET_PARAMETER_RANGE_set
  by auto

lemma find_parameters_exhausted:
  "find_parameters_for_output program target = Inl ValueError \<longleftrightarrow>
   (\<forall>n v. 0 \<le> n \<and> n < 100 \<and> 0 \<le> v \<and> v < 100 \<longrightarrow>
      parameters_yield_target_output program \<lparr>noun = n, verb = v\<rparr> target = Inr False)"
proof -
  have "parameters_yield_target_output program \<lparr>noun = n, verb = v\<rparr> target \<noteq> Inl ValueError"
    for n v
    using parameters_yield_target_output_error [of program "\<lparr>noun = n, verb = v\<rparr>" target ValueError]
    by auto
  then show ?thesis
    unfolding find_parameters_for_output_def
      for_noun_raises [OF TARGET_PARAMETER_RANGE_increasing]
      for_verb_raises [OF TARGET_PARAMETER_RANGE_increasing]
      for_verb_exhausted Ball_def Bex_def TARGET_PARAMETER_RANGE_set
    by auto
qed

lemma find_parameters_faults:
  "find_parameters_for_output program target = Inl IndexError \<longleftrightarrow>
   (\<exists>n v. 0 \<le> n \<and> n < 100 \<and> 0 \<le> v \<and> v < 100
      \<and> parameters_yield_target_output program \<lparr>noun = n, verb = v\<rparr> target = Inl IndexError
      \<and> (\<forall>n' v'. 0 \<le> n' \<and> n' < 100 \<and> 0 \<le> v' \<and> v' < 100
            \<and> (n' < n \<or> n' = n \<and> v' < v) \<longrightarrow>
            parameters_yield_target_output program \<lparr>noun = n', verb = v'\<rparr> target
              = Inr False))"
  unfolding find_parameters_for_output_def
    for_noun_raises [OF TARGET_PARAMETER_RANGE_increasing]
    for_verb_raises [OF TARGET_PARAMETER_RANGE_increasing]
    for_verb_exhausted Ball_def Bex_def TARGET_PARAMETER_RANGE_set
  by auto

lemma parameters_yield_target_output_True:
  "parameters_yield_target_output program parameters target = Inr True \<longleftrightarrow>
   (\<exists>configured final.
      set_program_parameters program (noun parameters) (verb parameters) = Inr configured
      \<and> simulate_program configured = Inr final
      \<and> read_output final = Inr target)"
  by (auto simp: parameters_yield_target_output_def split: sum.splits)

lemma find_parameters_error:
  "find_parameters_for_output program target = Inl e \<Longrightarrow> e = ValueError \<or> e = IndexError"
  unfolding find_parameters_for_output_def
    for_noun_raises [OF TARGET_PARAMETER_RANGE_increasing]
    for_verb_raises [OF TARGET_PARAMETER_RANGE_increasing]
  by (auto dest: parameters_yield_target_output_error)

text \<open>
  Claim C1, as stated: for every program and target output \<open>T\<close> the search returns the
  first pair in scan order whose run yields \<open>Memory[0] == T\<close>, and fails with
  \<^verbatim>\<open>NotFound\<close> if there is none. It fails on the program \<open>[1, 0, 0, 0, 99]\<close> with
  \<open>T = 4\<close>: the pair \<open>(2, 2)\<close> yields 4, but the search neither returns a pair nor raises
  its \<^verbatim>\<open>ValueError\<close>: the run of the earlier pair \<open>(0, 5)\<close> reads address 5 of a
  memory of length 5, and that \<^verbatim>\<open>IndexError\<close> ends the search.
\<close>

theorem find_parameters_counterexample:
  "find_parameters_for_output [1, 0, 0, 0, 99] 4 = Inl IndexError
   \<and> parameters_yield_target_output [1, 0, 0, 0, 99] \<lparr>noun = 2, verb = 2\<rparr> 4 = Inr True
   \<and> parameters_yield_target_output [1, 0, 0, 0, 99] \<lparr>noun = 0, verb = 5\<rparr> 4 = Inl IndexError"
  by code_simp

text \<open>
  Claim C1, amended. For every program and target output \<open>T\<close>, with the pairs
  \<open>(noun, verb)\<close> of \<open>[0,100) \<times> [0,100)\<close> taken in row-major order, and the run of a pair
  being: configure a fresh copy of the program with \<open>Memory[1] = noun\<close> and
  \<open>Memory[2] = verb\<close>, run the interpreter to halt, compare \<open>Memory[0]\<close> with \<open>T\<close>.
  \<^item> The search returns a pair exactly when it is the first pair whose run yields
    \<open>Memory[0] == T\<close> and the run of every pair before it halts with \<open>Memory[0] \<noteq> T\<close>.
  \<^item> It fails with \<^verbatim>\<open>NotFound\<close> (the \<^verbatim>\<open>ValueError\<close>) exactly when the run of every pair
    in the range halts with \<open>Memory[0] \<noteq> T\<close>.
  \<^item> It fails with the out-of-bounds fault (\<^verbatim>\<open>IndexError\<close>) exactly when the run of some
    pair faults and the run of every pair before it halts with \<open>Memory[0] \<noteq> T\<close>.
  \<^item> It fails in no other way, so it never returns a partial or approximate result.
\<close>

theorem find_parameters_first_match:
  "(find_parameters_for_output program target = Inr parameters \<longleftrightarrow>
      0 \<le> noun parameters \<and> noun parameters < 100
      \<and> 0 \<le> verb parameters \<and> verb parameters < 100
      \<and> parameters_yield_target_output program parameters target = Inr True
      \<and> (\<forall>n v. 0 \<le> n \<and> n < 100 \<and> 0 \<le> v \<and> v < 100
             \<and> (n < noun parameters \<or> n = noun parameters \<and> v < verb parameters) \<longrightarrow>
             parameters_yield_target_output program \<lparr>noun = n, verb = v\<rparr> target = Inr False))
   \<and> (find_parameters_for_output program target = Inl ValueError \<longleftrightarrow>
      (\<forall>n v. 0 \<le> n \<and> n < 100 \<and> 0 \<le> v \<and> v < 100 \<longrightarrow>
         parameters_yield_target_output program \<lparr>noun = n, verb = v\<rparr> target = Inr False))
   \<and> (find_parameters_for_output program target = Inl IndexError \<longleftrightarrow>
      (\<exists>n v. 0 \<le> n \<and> n < 100 \<and> 0 \<le> v \<and> v < 100
         \<and> parameters_yield_target_output program \<lparr>noun = n, verb = v\<rparr> target
             = Inl IndexError
         \<and> (\<forall>n' v'. 0 \<le> n' \<and> n' < 100 \<and> 0 \<le> v' \<and> v' < 100
               \<and> (n' < n \<or> n' = n \<and> v' < v) \<longrightarrow>
               parameters_yield_target_output program \<lparr>noun = n', verb = v'\<rparr> target
                 = Inr False)))
   \<and> find_parameters_for_output program target \<noteq> Inl TypeError
   \<and> (parameters_yield_target_output program parameters target = Inr True \<longleftrightarrow>
      (\<exists>configured final.
         set_program_parameters program (noun parameters) (verb parameters) = Inr configured
         \<and> simulate_program configured = Inr final
         \<and> read_output final = Inr target))"
proof -
  have "find_parameters_for_output program target \<noteq> Inl TypeError"
    using find_parameters_error [of program target TypeError] by auto
  with find_parameters_returns [of program target parameters]
    find_parameters_exhausted [of program target] find_parameters_faults [of program target]
    parameters_yield_target_output_True [of program parameters target]
  show ?thesis
    by (intro conjI) (assumption+)
qed

text \<open>
  The theorem at the program \<open>[1, 0, 0, 0, 99]\<close> with target 2, which the first pair
  \<open>(0, 0)\<close> yields, and at the program \<open>[99, 0, 0]\<close> with target 0, where every run halts
  at once with \<open>Memory[0] = 99\<close>.
\<close>

theorem find_parameters_first_match_witness:
  "find_parameters_for_output [1, 0, 0, 0, 99] 2 = Inr \<lparr>noun = 0, verb = 0\<rparr>
   \<and> find_parameters_for_output [99, 0, 0] 0 = Inl ValueError"
proof -
  have "parameters_yield_target_output [1, 0, 0, 0, 99] \<lparr>noun = 0, verb = 0\<rparr> 2 = Inr True"
    by code_simp
  then have first: "find_parameters_for_output [1, 0, 0, 0, 99] 2 = Inr \<lparr>noun = 0, verb = 0\<rparr>"
    using find_parameters_first_match [of "[1, 0, 0, 0, 99]" 2 "\<lparr>noun = 0, verb = 0\<rparr>"]
    by auto
  have "parameters_yield_target_output [99, 0, 0] \<lparr>noun = n, verb = v\<rparr> 0 = Inr False" for n v
  proof -
    have "set_program_parameters [99, 0, 0] n v = Inr [99, n, v]"
      using set_program_parameters_value [of "[99, 0, 0]" n v] by simp
    moreover have "getitem [99, n, v] 0 = Inr 99"
      using getitem_nat [of 0 "[99, n, v]"] by simp
    then have "simulate_program [99, n, v] = Inr [99, n, v]" "read_output [99, n, v] = Inr 99"
      using simulate_loop_halting [of "[99, n, v]" 0 99]
      by (simp_all add: simulate_program_def read_output_def)
    ultimately show ?thesis
      by (simp add: parameters_yield_target_output_def)
  qed
  then have "find_parameters_for_output [99, 0, 0] 0 = Inl ValueError"
    using find_parameters_first_match [of "[99, 0, 0]" 0 "\<lparr>noun = 0, verb = 0\<rparr>"]
    by simp
  with first show ?thesis
    by simp
qed

end
